theory Spec2Isabelle
  imports Main
begin

section \<open>Strings\<close>

text \<open>
  Python strings are modelled as \<^typ>\<open>string\<close>; a character stands for the code point of
  the same number. \<open>isspace\<close> lists the code points below 256 for which Python's
  \<^verbatim>\<open>str.isspace\<close> holds; \<^verbatim>\<open>str.strip()\<close> removes exactly those from both ends.
\<close>

definition isspace :: "char \<Rightarrow> bool" where
  "isspace c = (of_char c \<in> {9, 10, 11, 12, 13, 28, 29, 30, 31, 32, 133, 160 :: nat})"

definition lstrip :: "string \<Rightarrow> string" where
  "lstrip s = dropWhile isspace s"

definition rstrip :: "string \<Rightarrow> string" where
  "rstrip s = rev (dropWhile isspace (rev s))"

definition strip :: "string \<Rightarrow> string" where
  "strip s = rstrip (lstrip s)"

definition newline :: char where
  "newline = CHR 0x0A"

section \<open>Documents and the context assembler (qa.py)\<close>

record document =
  page_content :: string
  metadata :: "(string \<times> string) list"

definition no_context_msg :: string where
  "no_context_msg = ''No relevant context was found in the transcript.''"

text \<open>
  The body of the \<^verbatim>\<open>for doc in docs\<close> loop of \<^verbatim>\<open>_format_context\<close>, with the
  loop variables \<^verbatim>\<open>parts\<close> and \<^verbatim>\<open>current_len\<close> passed along. \<^verbatim>\<open>continue\<close> is the
  recursive call with both unchanged, \<^verbatim>\<open>break\<close> returns \<^verbatim>\<open>parts\<close> as it stands.
\<close>

fun format_loop :: "document list \<Rightarrow> int \<Rightarrow> string list \<Rightarrow> int \<Rightarrow> string list" where
  "format_loop [] max_chars parts current_len = parts"
| "format_loop (doc # docs) max_chars parts current_len =
     (let text = strip (page_content doc) in
      if text = [] then format_loop docs max_chars parts current_len
      else
        let chunk = ''- '' @ text @ [newline] in
        if current_len + int (length chunk) > max_chars then parts
        else format_loop docs max_chars (parts @ [chunk]) (current_len + int (length chunk)))"

definition format_context :: "document list \<Rightarrow> int \<Rightarrow> string" where
  "format_context docs max_chars =
     (let parts = format_loop docs max_chars [] 0 in
      if parts = [] then no_context_msg else concat parts)"

text \<open>
  For stating properties: the formatted entries of the documents whose stripped text is
  not empty, in the order given.
\<close>

definition format_chunk :: "string \<Rightarrow> string" where
  "format_chunk text = ''- '' @ text @ [newline]"

definition surviving_chunks :: "document list \<Rightarrow> string list" where
  "surviving_chunks docs =
     map format_chunk (filter (\<lambda>t. t \<noteq> []) (map (\<lambda>d. strip (page_content d)) docs))"

text \<open>The longest prefix of a list of entries whose total length stays within a budget.\<close>

fun take_fit :: "string list \<Rightarrow> int \<Rightarrow> string list" where
  "take_fit [] budget = []"
| "take_fit (c # cs) budget =
     (if int (length c) > budget then [] else c # take_fit cs (budget - int (length c)))"

section \<open>External services and exceptions\<close>

text \<open>
  An exception is modelled by its class and its message; \<open>str_of\<close> is what an
  f-string \<^verbatim>\<open>{e}\<close> prints. A function that can raise returns \<open>error + 'a\<close>.
\<close>

datatype error = RuntimeError string | ServiceError string

fun str_of :: "error \<Rightarrow> string" where
  "str_of (RuntimeError m) = m"
| "str_of (ServiceError m) = m"

type_synonym message = "string \<times> string"

text \<open>
  A chat response is the list of the contents of its choices;
  \<^verbatim>\<open>response.choices[0].message.content\<close> fails on the empty list.
\<close>

type_synonym response = "string list"

text \<open>
  The calls that leave the process, in the order they are made. Every operation below takes
  the trace so far and returns the extended one; what a service answers may depend on the
  whole trace before the call.
\<close>

datatype call =
    Transcribe string
  | ChatComplete "message list"
  | FromDocuments "document list"
  | RetrieverInvoke string

type_synonym trace = "call list"

record 'vs retriever =
  vector_store :: 'vs
  search_kwargs_k :: int

text \<open>
  The collaborators the code is written against: the configured Mistral client of
  config.py (\<open>None\<close> when \<^verbatim>\<open>MISTRAL_API_KEY\<close> is unset), the Whisper
  transcription, the text splitter of the splitting library (chunk size, chunk overlap,
  text), the vector-store construction with its embedding calls, and the retriever's search.
\<close>

record 'vs env =
  mistral_client :: "(trace \<Rightarrow> message list \<Rightarrow> error + response) option"
  transcriptions_create :: "trace \<Rightarrow> string \<Rightarrow> error + string"
  splitter_split_text :: "int \<Rightarrow> int \<Rightarrow> string \<Rightarrow> error + string list"
  faiss_from_documents :: "trace \<Rightarrow> document list \<Rightarrow> error + 'vs"
  retriever_invoke :: "trace \<Rightarrow> 'vs retriever \<Rightarrow> string \<Rightarrow> error + document list"

definition not_configured_msg :: string where
  "not_configured_msg =
     ''Mistral client is not configured. '' @
     ''Make sure MISTRAL_API_KEY is set in your environment/.env file.''"

definition ensure_mistral_client :: "'vs env \<Rightarrow> error + unit" where
  "ensure_mistral_client env =
     (case mistral_client env of
        None \<Rightarrow> Inl (RuntimeError not_configured_msg)
      | Some client \<Rightarrow> Inr ())"

section \<open>Summarization (summarization.py)\<close>

text \<open>
  The character U+2013 of the instruction text lies outside \<^typ>\<open>char\<close> and is written
  as its three UTF-8 bytes; no length of the instruction text is ever taken.
\<close>

definition en_dash :: string where
  "en_dash = [CHR 0xE2, CHR 0x80, CHR 0x93]"

definition summary_messages :: "string \<Rightarrow> message list" where
  "summary_messages prompt_content =
     [(''system'',
       ''You are a helpful Meeting Assistant. '' @
       ''Your job is to read meeting transcripts and produce concise, '' @
       ''structured summaries that highlight key points, decisions, '' @
       ''and action items.''),
      (''user'',
       ''Here is a meeting transcript (or part of it). '' @
       ''Please summarize it in the following structure:'' @ [newline, newline] @
       ''1. Overview (2'' @ en_dash @ ''3 sentences)'' @ [newline] @
       ''2. Key decisions (bullet points)'' @ [newline] @
       ''3. Action items (bullet points, include owner and due date if mentioned)'' @
       [newline, newline] @
       ''Transcript:'' @ [newline] @
       prompt_content)]"

definition call_mistral_summary :: "'vs env \<Rightarrow> trace \<Rightarrow> string \<Rightarrow> (error + string) \<times> trace" where
  "call_mistral_summary env tr prompt_content =
     (case mistral_client env of
        None \<Rightarrow> (Inl (RuntimeError not_configured_msg), tr)
      | Some client \<Rightarrow>
          let messages = summary_messages prompt_content;
              tr' = tr @ [ChatComplete messages]
          in (case client tr messages of
                Inl e \<Rightarrow>
                  (Inl (RuntimeError (''Failed to get summary from Mistral: '' @ str_of e)), tr')
              | Inr choices \<Rightarrow>
                  (case choices of
                     [] \<Rightarrow>
                       (Inl (RuntimeError (''Unexpected response format from Mistral: '' @
                                           ''list index out of range'')), tr')
                   | summary_text # others \<Rightarrow> (Inr summary_text, tr'))))"

definition split_text :: "'vs env \<Rightarrow> string \<Rightarrow> int \<Rightarrow> int \<Rightarrow> error + string list" where
  "split_text env text chunk_size chunk_overlap = splitter_split_text env chunk_size chunk_overlap text"

text \<open>Decimal rendering of a loop index, as an f-string prints it.\<close>

fun str_nat :: "nat \<Rightarrow> string" where
  "str_nat n =
     (if n < 10 then [char_of (48 + n)]
      else str_nat (n div 10) @ [char_of (48 + n mod 10)])"

declare str_nat.simps [simp del]

definition chunk_label :: "nat \<Rightarrow> string \<Rightarrow> string" where
  "chunk_label idx partial_summary =
     ''Chunk '' @ str_nat idx @ '' summary:'' @ [newline] @ partial_summary"

text \<open>
  The loop \<^verbatim>\<open>for idx, chunk in enumerate(chunks, start=1)\<close>; an exception of a call
  ends it with the partial summaries discarded. The progress line printed to the console
  is not part of the model.
\<close>

fun summarize_chunks ::
  "'vs env \<Rightarrow> trace \<Rightarrow> string list \<Rightarrow> nat \<Rightarrow> string list \<Rightarrow> (error + string list) \<times> trace" where
  "summarize_chunks env tr [] idx partial_summaries = (Inr partial_summaries, tr)"
| "summarize_chunks env tr (chunk # chunks) idx partial_summaries =
     (case call_mistral_summary env tr chunk of
        (Inl e, tr') \<Rightarrow> (Inl e, tr')
      | (Inr partial_summary, tr') \<Rightarrow>
          summarize_chunks env tr' chunks (Suc idx)
            (partial_summaries @ [chunk_label idx partial_summary]))"

fun join_str :: "string \<Rightarrow> string list \<Rightarrow> string" where
  "join_str sep [] = []"
| "join_str sep [x] = x"
| "join_str sep (x # y # ys) = x @ sep @ join_str sep (y # ys)"

definition final_messages_text :: "string list \<Rightarrow> string" where
  "final_messages_text partial_summaries =
     ''You have been given summaries of different parts of a long meeting. '' @
     ''Please combine them into ONE overall meeting summary with the '' @
     ''same structured format:'' @ [newline, newline] @
     ''1. Overview (2'' @ en_dash @ ''3 sentences)'' @ [newline] @
     ''2. Key decisions (bullet points)'' @ [newline] @
     ''3. Action items (bullet points)'' @ [newline, newline] @
     ''Here are the partial summaries:'' @ [newline, newline] @
     join_str [newline, newline] partial_summaries"

definition no_transcript_msg :: string where
  "no_transcript_msg = ''No transcript content provided to summarize.''"

definition summarize_meeting_with_mistral ::
  "'vs env \<Rightarrow> trace \<Rightarrow> string \<Rightarrow> int \<Rightarrow> (error + string) \<times> trace" where
  "summarize_meeting_with_mistral env tr transcript0 max_direct_chars =
     (let transcript = strip transcript0 in
      if transcript = [] then (Inr no_transcript_msg, tr)
      else if int (length transcript) \<le> max_direct_chars
        then call_mistral_summary env tr transcript
      else
        (case split_text env transcript max_direct_chars 300 of
           Inl e \<Rightarrow> (Inl e, tr)
         | Inr chunks \<Rightarrow>
             (case summarize_chunks env tr chunks 1 [] of
                (Inl e, tr') \<Rightarrow> (Inl e, tr')
              | (Inr partial_summaries, tr') \<Rightarrow>
                  call_mistral_summary env tr' (final_messages_text partial_summaries))))"

section \<open>Question answering (qa.py)\<close>

definition nothing_found_msg :: string where
  "nothing_found_msg = ''I couldn't find anything in the transcript related to that question.''"

definition answer_messages :: "string \<Rightarrow> string \<Rightarrow> message list" where
  "answer_messages context_text question =
     [(''system'',
       ''You are a helpful Meeting Assistant. '' @
       ''You answer questions ONLY using the provided meeting context. '' @
       ''If the answer is not in the context, say you don't know.''),
      (''user'',
       ''Here is context from the meeting transcript:'' @ [newline, newline] @
       context_text @ [newline, newline] @
       ''Using ONLY this context, answer the following question:'' @ [newline, newline] @
       ''Question: '' @ question)]"

definition answer_question_with_mistral ::
  "'vs env \<Rightarrow> trace \<Rightarrow> string \<Rightarrow> 'vs retriever \<Rightarrow> int \<Rightarrow> (error + string) \<times> trace" where
  "answer_question_with_mistral env tr question retriever max_context_chars =
     (case mistral_client env of
        None \<Rightarrow> (Inl (RuntimeError not_configured_msg), tr)
      | Some client \<Rightarrow>
          let tr1 = tr @ [RetrieverInvoke question]
          in (case retriever_invoke env tr retriever question of
                Inl e \<Rightarrow> (Inl e, tr1)
              | Inr docs \<Rightarrow>
                  if docs = [] then (Inr nothing_found_msg, tr1)
                  else
                    let context_text = format_context docs max_context_chars;
                        messages = answer_messages context_text question;
                        tr2 = tr1 @ [ChatComplete messages]
                    in (case client tr1 messages of
                          Inl e \<Rightarrow>
                            (Inl (RuntimeError (''Failed to get answer from Mistral: '' @
                                                str_of e)), tr2)
                        | Inr choices \<Rightarrow>
                            (case choices of
                               [] \<Rightarrow>
                                 (Inl (RuntimeError
                                         (''Unexpected response format from Mistral: '' @
                                          ''list index out of range'')), tr2)
                             | answer_text # others \<Rightarrow> (Inr answer_text, tr2)))))"

section \<open>Vector store (vector_store.py)\<close>

text \<open>
  \<^verbatim>\<open>split_documents\<close> splits the page content of the one base document and gives
  every chunk a copy of its metadata.
\<close>

definition split_transcript_to_documents ::
  "'vs env \<Rightarrow> string \<Rightarrow> int \<Rightarrow> int \<Rightarrow> error + document list" where
  "split_transcript_to_documents env transcript chunk_size chunk_overlap =
     (case splitter_split_text env chunk_size chunk_overlap transcript of
        Inl e \<Rightarrow> Inl e
      | Inr chunks \<Rightarrow>
          Inr (map (\<lambda>c. \<lparr>page_content = c, metadata = [(''source'', ''meeting_transcript'')]\<rparr>)
                 chunks))"

definition build_vector_store_from_transcript ::
  "'vs env \<Rightarrow> trace \<Rightarrow> string \<Rightarrow> (error + 'vs) \<times> trace" where
  "build_vector_store_from_transcript env tr transcript =
     (case split_transcript_to_documents env transcript 1000 200 of
        Inl e \<Rightarrow> (Inl e, tr)
      | Inr docs \<Rightarrow> (faiss_from_documents env tr docs, tr @ [FromDocuments docs]))"

definition build_retriever :: "'vs \<Rightarrow> int \<Rightarrow> 'vs retriever" where
  "build_retriever vs k = \<lparr>vector_store = vs, search_kwargs_k = k\<rparr>"

section \<open>The callbacks of the user interface (gradio_app.py)\<close>

definition transcribe_audio_path :: "'vs env \<Rightarrow> trace \<Rightarrow> string \<Rightarrow> (error + string) \<times> trace" where
  "transcribe_audio_path env tr file_path =
     (case transcriptions_create env tr file_path of
        Inl e \<Rightarrow>
          (Inl (RuntimeError (''Failed to transcribe audio from path '' @ [CHR 0x27] @ file_path @
                              [CHR 0x27] @ '': '' @ str_of e)),
           tr @ [Transcribe file_path])
      | Inr text \<Rightarrow> (Inr text, tr @ [Transcribe file_path]))"

definition truncated_marker :: string where
  "truncated_marker = [newline, newline] @ ''...[truncated]''"

text \<open>
  \<^verbatim>\<open>process_audio\<close>; the uploaded path is \<open>None\<close> when nothing was uploaded. The
  result is the triple of transcript preview, summary text and retriever.
\<close>

definition process_audio ::
  "'vs env \<Rightarrow> trace \<Rightarrow> string option \<Rightarrow> (string \<times> string \<times> 'vs retriever option) \<times> trace" where
  "process_audio env tr audio_path =
     (case audio_path of
        None \<Rightarrow> ((''No audio file uploaded yet.'', [], None), tr)
      | Some path \<Rightarrow>
          if path = [] then ((''No audio file uploaded yet.'', [], None), tr)
          else
            (case transcribe_audio_path env tr path of
               (Inl e, tr1) \<Rightarrow> ((''Error during transcription: '' @ str_of e, [], None), tr1)
             | (Inr transcript, tr1) \<Rightarrow>
                 let (summary, tr2) =
                       (case summarize_meeting_with_mistral env tr1 transcript 5000 of
                          (Inl e, t) \<Rightarrow> (''Error during summarization: '' @ str_of e, t)
                        | (Inr s, t) \<Rightarrow> (s, t))
                 in (case build_vector_store_from_transcript env tr2 transcript of
                       (Inl e, tr3) \<Rightarrow>
                         ((take 1500 transcript,
                           ''Error while building vector store / retriever: '' @ str_of e,
                           None), tr3)
                     | (Inr vs, tr3) \<Rightarrow>
                         let retriever = build_retriever vs 4;
                             transcript_preview = take 1500 transcript;
                             transcript_preview =
                               (if length transcript > 1500
                                then transcript_preview @ truncated_marker
                                else transcript_preview)
                         in ((transcript_preview, summary, Some retriever), tr3))))"

definition no_retriever_msg :: string where
  "no_retriever_msg =
     ''Please run **Transcribe & Summarize** first so I can build the meeting memory.''"

definition no_question_msg :: string where
  "no_question_msg = ''Please enter a question about the meeting.''"

definition answer_question_ui ::
  "'vs env \<Rightarrow> trace \<Rightarrow> string \<Rightarrow> 'vs retriever option \<Rightarrow> string \<times> trace" where
  "answer_question_ui env tr question retriever =
     (case retriever of
        None \<Rightarrow> (no_retriever_msg, tr)
      | Some r \<Rightarrow>
          if question = [] \<or> strip question = [] then (no_question_msg, tr)
          else
            (case answer_question_with_mistral env tr question r 4000 of
               (Inl e, tr') \<Rightarrow> (''Error while answering your question: '' @ str_of e, tr')
             | (Inr answer, tr') \<Rightarrow> (answer, tr')))"

section \<open>Example environments\<close>

text \<open>
  Concrete collaborators on which the operations can be run: a completion service that
  always answers, a splitter cutting once at the chunk size, a vector store that is the list
  of its documents, and a retriever returning the first \<open>k\<close> of them.
\<close>

definition demo_env :: "document list env" where
  "demo_env =
     \<lparr>mistral_client = Some (\<lambda>tr ms. Inr [''summary'']),
      transcriptions_create = (\<lambda>tr path. Inr ''hello world''),
      splitter_split_text =
        (\<lambda>size overlap text.
           Inr (filter (\<lambda>c. c \<noteq> []) [take (nat size) text, drop (nat size) text])),
      faiss_from_documents = (\<lambda>tr docs. Inr docs),
      retriever_invoke = (\<lambda>tr r q. Inr (take (nat (search_kwargs_k r)) (vector_store r)))\<rparr>"

text \<open>The same with \<^verbatim>\<open>MISTRAL_API_KEY\<close> unset, which config.py allows.\<close>

definition unconfigured_env :: "document list env" where
  "unconfigured_env = demo_env\<lparr>mistral_client := None\<rparr>"

text \<open>The same with an embedding service that is down.\<close>

definition failing_index_env :: "document list env" where
  "failing_index_env =
     demo_env\<lparr>faiss_from_documents := (\<lambda>tr docs. Inl (ServiceError ''embedding service unavailable''))\<rparr>"

text \<open>The same with a transcription of 1501 characters.\<close>

definition long_transcript_env :: "document list env" where
  "long_transcript_env =
     demo_env\<lparr>transcriptions_create := (\<lambda>tr path. Inr (replicate 1501 (CHR ''a'')))\<rparr>"

definition demo_docs :: "document list" where
  "demo_docs =
     [\<lparr>page_content = '' ab '', metadata = []\<rparr>,
      \<lparr>page_content = ''  '', metadata = []\<rparr>,
      \<lparr>page_content = ''cdef'', metadata = []\<rparr>]"

section \<open>Facts about stripping\<close>

lemma strip_empty_iff: "strip s = [] \<longleftrightarrow> (\<forall>c\<in>set s. isspace c)"
proof
  assume "strip s = []"
  then have all: "\<forall>x\<in>set (dropWhile isspace s). isspace x"
    by (simp add: strip_def lstrip_def rstrip_def)
  have "dropWhile isspace s = []"
  proof (rule ccontr)
    assume ne: "dropWhile isspace s \<noteq> []"
    then have "\<not> isspace (hd (dropWhile isspace s))" by (rule hd_dropWhile)
    moreover from ne have "hd (dropWhile isspace s) \<in> set (dropWhile isspace s)" by simp
    ultimately show False using all by blast
  qed
  then show "\<forall>c\<in>set s. isspace c" by simp
next
  assume "\<forall>c\<in>set s. isspace c"
  then have d: "dropWhile isspace s = []" by simp
  show "strip s = []" unfolding strip_def lstrip_def rstrip_def d by simp
qed

section \<open>The context assembler\<close>

lemma format_loop_take_fit:
  "format_loop docs m parts cur = parts @ take_fit (surviving_chunks docs) (m - cur)"
  by (induction docs arbitrary: parts cur)
     (auto simp: surviving_chunks_def format_chunk_def Let_def algebra_simps)

lemma take_fit_prefix: "take_fit cs b = take (length (take_fit cs b)) cs"
  by (induction cs arbitrary: b) auto

lemma take_fit_bound: "take_fit cs b \<noteq> [] \<Longrightarrow> int (length (concat (take_fit cs b))) \<le> b"
proof (induction cs arbitrary: b)
  case Nil
  then show ?case by simp
next
  case (Cons c cs)
  show ?case
  proof (cases "take_fit cs (b - int (length c)) = []")
    case True
    with Cons.prems show ?thesis by (auto split: if_splits)
  next
    case False
    from Cons.IH[OF False] Cons.prems show ?thesis by (auto split: if_splits)
  qed
qed

lemma take_fit_maximal:
  "length (take_fit cs b) < length cs \<Longrightarrow>
   b < int (length (concat (take (Suc (length (take_fit cs b))) cs)))"
proof (induction cs arbitrary: b)
  case Nil
  then show ?case by simp
next
  case (Cons c cs)
  show ?case
  proof (cases "int (length c) > b")
    case True
    then show ?thesis by simp
  next
    case False
    with Cons.prems have "length (take_fit cs (b - int (length c))) < length cs" by simp
    from Cons.IH[OF this] False show ?thesis by simp
  qed
qed

lemma take_fit_Nil_iff:
  "take_fit cs m = [] \<longleftrightarrow> (cs = [] \<or> (\<exists>c rest. cs = c # rest \<and> m < int (length c)))"
  by (cases cs) auto

lemma take_fit_subset: "set (take_fit cs b) \<subseteq> set cs"
  by (induction cs arbitrary: b) auto

lemma surviving_empty_iff:
  "surviving_chunks docs = [] \<longleftrightarrow> (\<forall>d\<in>set docs. strip (page_content d) = [])"
  by (auto simp: surviving_chunks_def filter_empty_conv)

lemma surviving_chunks_dash:
  "c \<in> set (surviving_chunks docs) \<Longrightarrow> \<exists>r. c = CHR ''-'' # r"
  by (auto simp: surviving_chunks_def format_chunk_def)

lemma concat_parts_not_msg:
  assumes "take_fit (surviving_chunks docs) m \<noteq> []"
  shows "concat (take_fit (surviving_chunks docs) m) \<noteq> no_context_msg"
proof -
  from assms obtain p ps where eq: "take_fit (surviving_chunks docs) m = p # ps"
    by (cases "take_fit (surviving_chunks docs) m") auto
  then have "p \<in> set (surviving_chunks docs)"
    using take_fit_subset[of "surviving_chunks docs" m] by auto
  then obtain r where "p = CHR ''-'' # r" using surviving_chunks_dash by blast
  with eq show ?thesis by (simp add: no_context_msg_def)
qed

lemma format_loop_start: "format_loop docs m [] 0 = take_fit (surviving_chunks docs) m"
  by (simp add: format_loop_take_fit)

text \<open>
  Claim C2. The entries that \<open>format_context\<close> joins are a prefix of the formatted
  non-empty chunks, whole and in the order given; the loop stops at the first entry that
  would take the total past \<open>max_chars\<close>; and when at least one entry is included the
  result is their concatenation, of length at most \<open>max_chars\<close>.
\<close>

theorem format_context_whole_chunks:
  "format_loop docs max_chars [] 0 =
     take (length (format_loop docs max_chars [] 0)) (surviving_chunks docs) \<and>
   (length (format_loop docs max_chars [] 0) < length (surviving_chunks docs) \<longrightarrow>
      max_chars < int (length (concat
        (take (Suc (length (format_loop docs max_chars [] 0))) (surviving_chunks docs))))) \<and>
   (format_loop docs max_chars [] 0 \<noteq> [] \<longrightarrow>
      format_context docs max_chars = concat (format_loop docs max_chars [] 0) \<and>
      int (length (format_context docs max_chars)) \<le> max_chars)"
proof (intro conjI impI)
  show "format_loop docs max_chars [] 0 =
     take (length (format_loop docs max_chars [] 0)) (surviving_chunks docs)"
    unfolding format_loop_start by (rule take_fit_prefix)
next
  assume "length (format_loop docs max_chars [] 0) < length (surviving_chunks docs)"
  then show "max_chars < int (length (concat
        (take (Suc (length (format_loop docs max_chars [] 0))) (surviving_chunks docs))))"
    unfolding format_loop_start by (rule take_fit_maximal)
next
  assume ne: "format_loop docs max_chars [] 0 \<noteq> []"
  then show eq: "format_context docs max_chars = concat (format_loop docs max_chars [] 0)"
    by (simp add: format_context_def)
  from ne have "int (length (concat (format_loop docs max_chars [] 0))) \<le> max_chars"
    unfolding format_loop_start by (rule take_fit_bound)
  with eq show "int (length (format_context docs max_chars)) \<le> max_chars" by simp
qed

theorem format_context_whole_chunks_witness:
  "format_loop demo_docs 5 [] 0 = [''- ab'' @ [newline]] \<and>
   surviving_chunks demo_docs = [''- ab'' @ [newline], ''- cdef'' @ [newline]] \<and>
   format_context demo_docs 5 = ''- ab'' @ [newline] \<and>
   int (length (format_context demo_docs 5)) \<le> 5"
  using format_context_whole_chunks[of demo_docs 5]
  by (simp add: demo_docs_def surviving_chunks_def format_chunk_def strip_def lstrip_def
      rstrip_def isspace_def newline_def)

text \<open>
  Claim C8, as stated, fails: a chunk with text is dropped, and the sentinel returned, when
  its entry alone is longer than \<open>max_chars\<close>.
\<close>

theorem format_context_sentinel_counterexample:
  "strip (page_content \<lparr>page_content = ''hello'', metadata = []\<rparr>) \<noteq> [] \<and>
   format_context [\<lparr>page_content = ''hello'', metadata = []\<rparr>] 3 = no_context_msg"
  by (simp add: format_context_def strip_def lstrip_def rstrip_def isspace_def newline_def)

text \<open>
  Claim C8, amended. \<open>format_context\<close> returns the sentinel exactly when no entry is
  included: every chunk strips to the empty string (the empty list among them), or the
  entry of the first chunk with text is longer than \<open>max_chars\<close>.
\<close>

theorem format_context_sentinel_iff:
  "(format_context docs max_chars = no_context_msg) =
     ((\<forall>d\<in>set docs. strip (page_content d) = []) \<or>
      (\<exists>c rest. surviving_chunks docs = c # rest \<and> max_chars < int (length c)))"
proof -
  have "(format_context docs max_chars = no_context_msg) =
        (take_fit (surviving_chunks docs) max_chars = [])"
    using concat_parts_not_msg[of docs max_chars]
    by (auto simp: format_context_def format_loop_start Let_def split: if_splits)
  then show ?thesis
    by (simp add: take_fit_Nil_iff surviving_empty_iff)
qed

theorem format_context_sentinel_iff_witness:
  "strip (page_content \<lparr>page_content = ''  '', metadata = []\<rparr>) = [] \<and>
   format_context [\<lparr>page_content = ''  '', metadata = []\<rparr>] 4000 = no_context_msg \<and>
   format_context [] 4000 = no_context_msg"
  using format_context_sentinel_iff[of "[\<lparr>page_content = ''  '', metadata = []\<rparr>]" 4000]
    format_context_sentinel_iff[of "[]" 4000]
  by (simp add: strip_def lstrip_def rstrip_def isspace_def)

section \<open>Empty inputs and missing retrievers\<close>

text \<open>
  Claim C7. A transcript that is empty or consists only of whitespace gets the fixed
  message, and the trace of external calls is unchanged: no completion call is made.
\<close>

theorem summarize_blank_transcript:
  assumes "\<forall>c\<in>set transcript. isspace c"
  shows "summarize_meeting_with_mistral env tr transcript max_direct_chars =
           (Inr no_transcript_msg, tr)"
proof -
  from assms have "strip transcript = []" by (simp only: strip_empty_iff)
  then show ?thesis by (simp add: summarize_meeting_with_mistral_def)
qed

theorem summarize_blank_transcript_witness:
  "summarize_meeting_with_mistral demo_env [] [CHR '' '', newline, CHR 0x09] 5000 =
     (Inr no_transcript_msg, []) \<and>
   summarize_meeting_with_mistral demo_env [] [] 5000 = (Inr no_transcript_msg, [])"
proof -
  have h: "\<forall>c\<in>set [CHR '' '', newline, CHR 0x09]. isspace c"
    by (simp add: isspace_def newline_def)
  have e: "\<forall>c\<in>set ([] :: string). isspace c" by simp
  show ?thesis
    using summarize_blank_transcript[OF h, of demo_env "[]" 5000]
      summarize_blank_transcript[OF e, of demo_env "[]" 5000]
    by simp
qed

text \<open>
  Claim C6. Without a retriever \<open>answer_question_ui\<close> returns its fixed guidance
  message and leaves the trace of external calls as it was; with a retriever and a question
  that is empty or only whitespace it returns the other fixed guidance message, again
  without any call. The result is a plain string in every case, never an exception.
\<close>

theorem answer_question_ui_guidance:
  "answer_question_ui env tr question None = (no_retriever_msg, tr) \<and>
   ((\<forall>c\<in>set question. isspace c) \<longrightarrow>
      answer_question_ui env tr question (Some r) = (no_question_msg, tr))"
  by (simp add: answer_question_ui_def strip_empty_iff)

theorem answer_question_ui_guidance_witness:
  "answer_question_ui demo_env [] ''What was decided?'' None = (no_retriever_msg, []) \<and>
   answer_question_ui demo_env [] [CHR '' '', CHR 0x09] (Some (build_retriever demo_docs 4)) =
     (no_question_msg, []) \<and>
   answer_question_ui demo_env [] [] (Some (build_retriever demo_docs 4)) = (no_question_msg, [])"
proof -
  have h: "\<forall>c\<in>set [CHR '' '', CHR 0x09]. isspace c" by (simp add: isspace_def)
  have e: "\<forall>c\<in>set ([] :: string). isspace c" by simp
  show ?thesis
    using answer_question_ui_guidance[of demo_env "[]" "''What was decided?''"
        "build_retriever demo_docs 4"]
      answer_question_ui_guidance[of demo_env "[]" "[CHR '' '', CHR 0x09]"
        "build_retriever demo_docs 4"] h
      answer_question_ui_guidance[of demo_env "[]" "[]" "build_retriever demo_docs 4"] e
    by simp
qed




section \<open>Processing an upload\<close>

text \<open>
  Claim C9. When the summarization raises, \<open>process_audio\<close> puts the readable error
  text in the place of the summary and goes on to build the vector store from the
  transcript; when that build succeeds the retriever over it is returned, so questions can
  be asked.
\<close>

theorem process_audio_summary_failure:
  assumes "path \<noteq> []"
    and "transcribe_audio_path env tr path = (Inr transcript, tr1)"
    and "summarize_meeting_with_mistral env tr1 transcript 5000 = (Inl e, tr2)"
    and "build_vector_store_from_transcript env tr2 transcript = (Inr vs, tr3)"
  shows "process_audio env tr (Some path) =
           ((take 1500 transcript @ (if length transcript > 1500 then truncated_marker else []),
             ''Error during summarization: '' @ str_of e,
             Some (build_retriever vs 4)), tr3)"
  using assms by (simp add: process_audio_def)

theorem process_audio_summary_failure_witness:
  "process_audio unconfigured_env [] (Some ''meeting.wav'') =
     ((''hello world'',
       ''Error during summarization: '' @ not_configured_msg,
       Some (build_retriever
         [\<lparr>page_content = ''hello world'', metadata = [(''source'', ''meeting_transcript'')]\<rparr>] 4)),
      [Transcribe ''meeting.wav'',
       FromDocuments
         [\<lparr>page_content = ''hello world'', metadata = [(''source'', ''meeting_transcript'')]\<rparr>]])"
proof -
  have p: "''meeting.wav'' \<noteq> []" by simp
  have t: "transcribe_audio_path unconfigured_env [] ''meeting.wav'' =
             (Inr ''hello world'', [Transcribe ''meeting.wav''])"
    by (simp add: transcribe_audio_path_def unconfigured_env_def demo_env_def)
  have s: "summarize_meeting_with_mistral unconfigured_env [Transcribe ''meeting.wav'']
             ''hello world'' 5000 =
           (Inl (RuntimeError not_configured_msg), [Transcribe ''meeting.wav''])"
    by (simp add: summarize_meeting_with_mistral_def call_mistral_summary_def
        unconfigured_env_def demo_env_def strip_def lstrip_def rstrip_def isspace_def)
  have b: "build_vector_store_from_transcript unconfigured_env [Transcribe ''meeting.wav'']
             ''hello world'' =
           (Inr [\<lparr>page_content = ''hello world'',
                  metadata = [(''source'', ''meeting_transcript'')]\<rparr>],
            [Transcribe ''meeting.wav'',
             FromDocuments
               [\<lparr>page_content = ''hello world'',
                  metadata = [(''source'', ''meeting_transcript'')]\<rparr>]])"
    by (simp add: build_vector_store_from_transcript_def split_transcript_to_documents_def
        unconfigured_env_def demo_env_def)
  show ?thesis using process_audio_summary_failure[OF p t s b] by simp
qed

text \<open>
  Claim C10. Once the transcription has returned a transcript, the preview is built from
  its first 1500 characters: with the index built, the preview is that prefix, followed by
  the truncation marker exactly when the transcript is longer than 1500 characters; with
  the index build failing, the result is that prefix without the marker, the error text
  and no retriever.
\<close>

theorem process_audio_preview:
  assumes "path \<noteq> []"
    and "transcribe_audio_path env tr path = (Inr transcript, tr1)"
  shows
    "(build_vector_store_from_transcript env
        (snd (summarize_meeting_with_mistral env tr1 transcript 5000)) transcript =
        (Inr vs, tr3) \<longrightarrow>
      fst (fst (process_audio env tr (Some path))) =
        take 1500 transcript @ (if length transcript > 1500 then truncated_marker else [])) \<and>
     (build_vector_store_from_transcript env
        (snd (summarize_meeting_with_mistral env tr1 transcript 5000)) transcript =
        (Inl e, tr3) \<longrightarrow>
      fst (process_audio env tr (Some path)) =
        (take 1500 transcript,
         ''Error while building vector store / retriever: '' @ str_of e,
         None))"
  using assms
  by (cases "summarize_meeting_with_mistral env tr1 transcript 5000")
     (auto simp: process_audio_def split: sum.splits)

theorem process_audio_preview_witness:
  "fst (fst (process_audio demo_env [] (Some ''meeting.wav''))) = ''hello world'' \<and>
   fst (fst (process_audio long_transcript_env [] (Some ''meeting.wav''))) =
     replicate 1500 (CHR ''a'') @ truncated_marker \<and>
   fst (process_audio failing_index_env [] (Some ''meeting.wav'')) =
     (''hello world'',
      ''Error while building vector store / retriever: embedding service unavailable'',
      None)"
proof -
  have p: "''meeting.wav'' \<noteq> []" by simp
  have t1: "transcribe_audio_path demo_env [] ''meeting.wav'' =
              (Inr ''hello world'', [Transcribe ''meeting.wav''])"
    by (simp add: transcribe_audio_path_def demo_env_def)
  have b1: "build_vector_store_from_transcript demo_env T ''hello world'' =
              (Inr [\<lparr>page_content = ''hello world'',
                     metadata = [(''source'', ''meeting_transcript'')]\<rparr>],
               T @ [FromDocuments [\<lparr>page_content = ''hello world'',
                     metadata = [(''source'', ''meeting_transcript'')]\<rparr>]])" for T
    by (simp add: build_vector_store_from_transcript_def split_transcript_to_documents_def
        demo_env_def)
  have t2: "transcribe_audio_path long_transcript_env [] ''meeting.wav'' =
              (Inr (replicate 1501 (CHR ''a'')), [Transcribe ''meeting.wav''])"
    by (simp add: transcribe_audio_path_def long_transcript_env_def demo_env_def)
  have b2: "\<exists>vs. build_vector_store_from_transcript long_transcript_env T
              (replicate 1501 (CHR ''a'')) = (Inr vs, T @ [FromDocuments vs])" for T
    by (simp add: build_vector_store_from_transcript_def split_transcript_to_documents_def
        long_transcript_env_def demo_env_def)
  have t3: "transcribe_audio_path failing_index_env [] ''meeting.wav'' =
              (Inr ''hello world'', [Transcribe ''meeting.wav''])"
    by (simp add: transcribe_audio_path_def failing_index_env_def demo_env_def)
  have b3: "build_vector_store_from_transcript failing_index_env T ''hello world'' =
              (Inl (ServiceError ''embedding service unavailable''),
               T @ [FromDocuments [\<lparr>page_content = ''hello world'',
                     metadata = [(''source'', ''meeting_transcript'')]\<rparr>]])" for T
    by (simp add: build_vector_store_from_transcript_def split_transcript_to_documents_def
        failing_index_env_def demo_env_def)
  from b2 obtain vs where b2':
    "build_vector_store_from_transcript long_transcript_env
       (snd (summarize_meeting_with_mistral long_transcript_env [Transcribe ''meeting.wav'']
          (replicate 1501 (CHR ''a'')) 5000))
       (replicate 1501 (CHR ''a'')) =
     (Inr vs, snd (summarize_meeting_with_mistral long_transcript_env [Transcribe ''meeting.wav'']
          (replicate 1501 (CHR ''a'')) 5000) @ [FromDocuments vs])"
    by blast
  have c1: "fst (fst (process_audio demo_env [] (Some ''meeting.wav''))) = ''hello world''"
    using process_audio_preview[OF p t1] b1 by simp
  have c2: "fst (fst (process_audio long_transcript_env [] (Some ''meeting.wav''))) =
              replicate 1500 (CHR ''a'') @ truncated_marker"
    using process_audio_preview[OF p t2] b2' by simp
  have c3: "fst (process_audio failing_index_env [] (Some ''meeting.wav'')) =
     (''hello world'',
      ''Error while building vector store / retriever: embedding service unavailable'',
      None)"
    using process_audio_preview[OF p t3] b3 by simp
  from c1 c2 c3 show ?thesis by simp
qed

section \<open>The calls made by the summarizer\<close>






end
